theory Spec2Isabelle
  imports Main
begin

section \<open>JavaScript values used by the client\<close>

text \<open>
  Strings are \<^typ>\<open>string\<close>: a JavaScript string is read as the list of the bytes of its
  UTF-8 encoding, so every ASCII character is one \<^typ>\<open>char\<close>. \<open>toLowerCase\<close> is
  modelled on the ASCII letters; a byte above 127 is left alone.

  A number that the code computes is \<open>NaN\<close>, an infinity, or a double with an integer
  value: the numbers come from \<open>parseInt\<close> and from a multiplication by 1000, so no
  fraction arises. \<open>Num n\<close> is the double of value \<open>n\<close>; every function that makes
  a number rounds to a double with \<open>to_double\<close>.
\<close>

datatype js_number = NaN | Num int | PosInfinity | NegInfinity

definition digit_char :: "nat \<Rightarrow> char" where
  "digit_char d = ''0123456789'' ! (d mod 10)"

function string_of_nat :: "nat \<Rightarrow> string" where
  "string_of_nat n =
     (if n < 10 then [digit_char n] else string_of_nat (n div 10) @ [digit_char (n mod 10)])"
  by pat_completeness auto
termination
  by (relation "measure (\<lambda>n. n)") auto

declare string_of_nat.simps [simp del]

text \<open>
  The double nearest to a natural number, ties to the even significand of 53 bits;
  \<open>None\<close> when the rounded value is \<open>2 ^ 1024\<close> or more, which is an infinity.
\<close>

function bit_length :: "nat \<Rightarrow> nat" where
  "bit_length n = (if n = 0 then 0 else Suc (bit_length (n div 2)))"
  by pat_completeness auto
termination
  by (relation "measure (\<lambda>n. n)") auto

declare bit_length.simps [simp del]

definition round_nat :: "nat \<Rightarrow> nat option" where
  "round_nat m =
     (if m < 9007199254740992 then Some m
      else
        let e = bit_length m - 53;
            q = m div 2 ^ e;
            r = m mod 2 ^ e;
            h = 2 ^ (e - 1);
            q' = (if h < r \<or> (r = h \<and> odd q) then Suc q else q)
        in if 971 < e \<or> (e = 971 \<and> 9007199254740992 \<le> q') then None else Some (q' * 2 ^ e))"

definition to_double :: "int \<Rightarrow> js_number" where
  "to_double i =
     (if i < 0
      then (case round_nat (nat (- i)) of None \<Rightarrow> NegInfinity | Some v \<Rightarrow> Num (- int v))
      else (case round_nat (nat i) of None \<Rightarrow> PosInfinity | Some v \<Rightarrow> Num (int v)))"

text \<open>
  \<open>String(x)\<close> for a double with a natural value \<open>v\<close>. Below \<open>2 ^ 53\<close> these are the
  decimal digits. From there on JavaScript writes the fewest digits \<open>s\<close> (there are
  \<open>k\<close> of them) such that \<open>s * 10 ^ (n - k)\<close> rounds to \<open>v\<close>, taking the nearest such
  \<open>s\<close>: followed by zeros while \<open>n\<close> is at most 21, in exponent notation beyond.
\<close>

definition round_trips :: "nat \<Rightarrow> nat \<Rightarrow> bool" where
  "round_trips v x = (round_nat x = Some v)"

definition distance :: "nat \<Rightarrow> nat \<Rightarrow> nat" where
  "distance a b = (if a < b then b - a else a - b)"

definition candidate :: "nat \<Rightarrow> nat \<Rightarrow> nat \<Rightarrow> (nat \<times> nat) option" where
  "candidate v d k =
     (let p = 10 ^ (d - k);
          lo = v div p;
          hi = Suc lo;
          lo_ok = round_trips v (lo * p);
          hi_ok = round_trips v (hi * p);
          pick_hi = (hi_ok \<and> (\<not> lo_ok \<or> distance v (hi * p) < distance v (lo * p)
                       \<or> (distance v (hi * p) = distance v (lo * p) \<and> even hi)))
      in if pick_hi then (if hi = 10 ^ k then Some (10 ^ (k - 1), Suc d) else Some (hi, d))
         else if lo_ok then Some (lo, d)
         else None)"

fun shortest :: "nat \<Rightarrow> nat \<Rightarrow> nat \<Rightarrow> nat \<Rightarrow> nat \<times> nat \<times> nat" where
  "shortest v d k 0 = (v, d, d)"
| "shortest v d k (Suc fuel) =
     (case candidate v d k of
        Some (s, n) \<Rightarrow> (s, k, n)
      | None \<Rightarrow> shortest v d (Suc k) fuel)"

definition render_nat :: "nat \<Rightarrow> string" where
  "render_nat v =
     (if v < 9007199254740992 then string_of_nat v
      else
        let d = length (string_of_nat v);
            (s, k, n) = shortest v d 1 (d - 1);
            ds = string_of_nat s
        in if n \<le> 21 then ds @ replicate (n - k) (CHR ''0'')
           else if k = 1 then ds @ ''e+'' @ string_of_nat (n - 1)
           else hd ds # ''.'' @ tl ds @ ''e+'' @ string_of_nat (n - 1))"

text \<open>\<open>String(x)\<close> and the template literal \<open>`${x}`\<close> for a number.\<close>

fun String_number :: "js_number \<Rightarrow> string" where
  "String_number NaN = ''NaN''"
| "String_number PosInfinity = ''Infinity''"
| "String_number NegInfinity = ''-Infinity''"
| "String_number (Num i) =
     (if i < 0 then CHR ''-'' # render_nat (nat (- i)) else render_nat (nat i))"

text \<open>The product \<open>x * k\<close> of a number and an integer constant.\<close>

fun js_times :: "js_number \<Rightarrow> int \<Rightarrow> js_number" where
  "js_times NaN k = NaN"
| "js_times (Num i) k = to_double (i * k)"
| "js_times PosInfinity k = (if 0 < k then PosInfinity else if k < 0 then NegInfinity else NaN)"
| "js_times NegInfinity k = (if 0 < k then NegInfinity else if k < 0 then PosInfinity else NaN)"

definition is_digit :: "char \<Rightarrow> bool" where
  "is_digit c = (c \<in> set ''0123456789'')"

definition digit_value :: "char \<Rightarrow> nat" where
  "digit_value c = of_char c - 48"

text \<open>
  The white space that \<open>parseInt\<close> skips: TAB, LF, VT, FF, CR and SPACE, and in UTF-8
  the two bytes of U+00A0 and the three bytes of U+1680, U+2000 to U+200A, U+2028,
  U+2029, U+202F, U+205F, U+3000 and U+FEFF.
\<close>

definition is_space :: "char \<Rightarrow> bool" where
  "is_space c = (of_char c \<in> {9, 10, 11, 12, 13, 32 :: nat})"

definition is_space2 :: "char \<Rightarrow> char \<Rightarrow> bool" where
  "is_space2 a b = (a = CHR 0xC2 \<and> b = CHR 0xA0)"

definition is_space3 :: "char \<Rightarrow> char \<Rightarrow> char \<Rightarrow> bool" where
  "is_space3 a b c =
     ((a = CHR 0xE1 \<and> b = CHR 0x9A \<and> c = CHR 0x80) \<or>
      (a = CHR 0xE2 \<and> b = CHR 0x80 \<and>
         ((128 :: nat) \<le> of_char c \<and> (of_char c :: nat) \<le> 138 \<or>
          c = CHR 0xA8 \<or> c = CHR 0xA9 \<or> c = CHR 0xAF)) \<or>
      (a = CHR 0xE2 \<and> b = CHR 0x81 \<and> c = CHR 0x9F) \<or>
      (a = CHR 0xE3 \<and> b = CHR 0x80 \<and> c = CHR 0x80) \<or>
      (a = CHR 0xEF \<and> b = CHR 0xBB \<and> c = CHR 0xBF))"

fun skip_space :: "string \<Rightarrow> string" where
  "skip_space (a # b # c # s) =
     (if is_space a then skip_space (b # c # s)
      else if is_space2 a b then skip_space (c # s)
      else if is_space3 a b c then skip_space s
      else a # b # c # s)"
| "skip_space [a, b] =
     (if is_space a then skip_space [b] else if is_space2 a b then [] else [a, b])"
| "skip_space [a] = (if is_space a then [] else [a])"
| "skip_space [] = []"

text \<open>The value of a string of decimal digits, read from the left.\<close>

fun digits_value :: "nat \<Rightarrow> string \<Rightarrow> nat" where
  "digits_value acc [] = acc"
| "digits_value acc (c # cs) = digits_value (acc * 10 + digit_value c) cs"

text \<open>
  \<open>parseInt(s, 10)\<close>: leading white space is skipped, one sign is read, then the longest
  run of decimal digits; with no digit there the result is \<open>NaN\<close>, and otherwise the
  double nearest to the integer written, as Node computes it. Whatever follows the
  digits is ignored.
\<close>

definition parseInt :: "string \<Rightarrow> js_number" where
  "parseInt s =
     (let t = skip_space s;
          neg = (t \<noteq> [] \<and> hd t = CHR ''-'');
          u = (if t \<noteq> [] \<and> (hd t = CHR ''-'' \<or> hd t = CHR ''+'') then tl t else t);
          ds = takeWhile is_digit u
      in if ds = [] then NaN
         else if neg then to_double (- int (digits_value 0 ds))
         else to_double (int (digits_value 0 ds)))"

definition to_lower_char :: "char \<Rightarrow> char" where
  "to_lower_char c =
     (case map_of (zip ''ABCDEFGHIJKLMNOPQRSTUVWXYZ'' ''abcdefghijklmnopqrstuvwxyz'') c of
        Some l \<Rightarrow> l
      | None \<Rightarrow> c)"

definition toLowerCase :: "string \<Rightarrow> string" where
  "toLowerCase s = map to_lower_char s"

section \<open>Configuration\<close>

record Rapid7Config =
  baseUrl :: string
  apiKey :: string
  region :: string
  timeout :: js_number

text \<open>
  The environment: \<open>process.env.X\<close> is a string or \<open>undefined\<close> (\<open>None\<close>).
\<close>

record environment =
  RAPID7_API_KEY :: "string option"
  RAPID7_REGION :: "string option"
  RAPID7_BASE_URL :: "string option"
  RAPID7_TIMEOUT :: "string option"

datatype region_entry = Url string | Inherited

text \<open>
  \<open>REGION_URLS[region]\<close>. The table is a plain object, so besides its seven own keys the
  lookup finds what the object inherits: after \<open>toLowerCase\<close> the names
  \<open>constructor\<close> and \<open>__proto__\<close> are the two that can be asked for, and the value found
  there is not a string.
\<close>

definition REGION_URLS :: "(string \<times> string) list" where
  "REGION_URLS =
     [(''us'', ''https://us.api.insight.rapid7.com''),
      (''us2'', ''https://us2.api.insight.rapid7.com''),
      (''us3'', ''https://us3.api.insight.rapid7.com''),
      (''eu'', ''https://eu.api.insight.rapid7.com''),
      (''ca'', ''https://ca.api.insight.rapid7.com''),
      (''au'', ''https://au.api.insight.rapid7.com''),
      (''ap'', ''https://ap.api.insight.rapid7.com'')]"

definition region_lookup :: "string \<Rightarrow> region_entry option" where
  "region_lookup r =
     (case map_of REGION_URLS r of
        Some u \<Rightarrow> Some (Url u)
      | None \<Rightarrow> if r = ''constructor'' \<or> r = ''__proto__'' then Some Inherited else None)"

text \<open>\<open>s.replace(/\/+$/, "")\<close>: the whole run of slashes at the end of the string goes.\<close>

definition strip_trailing_slashes :: "string \<Rightarrow> string" where
  "strip_trailing_slashes s = rev (dropWhile (\<lambda>c. c = CHR ''/'') (rev s))"

datatype config_error =
  MissingApiKey
  | UnknownRegion string
  | ReplaceNotAFunction

text \<open>
  \<open>getConfig\<close>. A test \<open>!x\<close> on an environment variable holds for \<open>undefined\<close> and for
  the empty string (\<open>truthy_string\<close> is its negation, giving the string); \<open>||\<close> falls
  back on both, \<open>??\<close> on \<open>undefined\<close> only.
\<close>

definition truthy_string :: "string option \<Rightarrow> string option" where
  "truthy_string v = (case v of None \<Rightarrow> None | Some s \<Rightarrow> if s = [] then None else Some s)"

definition or_default :: "string option \<Rightarrow> string \<Rightarrow> string" where
  "or_default v d = (case truthy_string v of None \<Rightarrow> d | Some s \<Rightarrow> s)"

definition nullish_default :: "string option \<Rightarrow> string \<Rightarrow> string" where
  "nullish_default v d = (case v of None \<Rightarrow> d | Some s \<Rightarrow> s)"

definition resolve_base_url :: "string option \<Rightarrow> string \<Rightarrow> config_error + string" where
  "resolve_base_url override reg =
     (case truthy_string override of
        Some u \<Rightarrow> Inr u
      | None \<Rightarrow>
          (case region_lookup reg of
             None \<Rightarrow> Inl (UnknownRegion reg)
           | Some Inherited \<Rightarrow> Inl ReplaceNotAFunction
           | Some (Url u) \<Rightarrow> if u = [] then Inl (UnknownRegion reg) else Inr u))"

definition getConfig :: "environment \<Rightarrow> config_error + Rapid7Config" where
  "getConfig env =
     (case truthy_string (RAPID7_API_KEY env) of
        None \<Rightarrow> Inl MissingApiKey
      | Some key \<Rightarrow>
          let reg = toLowerCase (or_default (RAPID7_REGION env) ''us'');
              ms = js_times (parseInt (nullish_default (RAPID7_TIMEOUT env) ''30'')) 1000
          in (case resolve_base_url (RAPID7_BASE_URL env) reg of
                Inl e \<Rightarrow> Inl e
              | Inr url \<Rightarrow>
                  Inr \<lparr>baseUrl = strip_trailing_slashes url,
                       apiKey = key,
                       region = reg,
                       timeout = ms\<rparr>))"

section \<open>JSON values\<close>

text \<open>
  A decoded JSON value. An object keeps its members in insertion order, one entry for
  each key, as the object built by the JSON parser does. A number with an integer
  value is \<open>JNum\<close> of that value; a number with a fractional part is \<open>JFraction\<close> of
  the text that \<open>String\<close> writes for it. \<open>undefined\<close> is not a JSON
  value: a JavaScript value that may be \<open>undefined\<close> is a \<open>json option\<close>.
\<close>

datatype json =
  JNull
  | JBool bool
  | JNum int
  | JFraction string
  | JStr string
  | JArr "json list"
  | JObj "(string \<times> json) list"

text \<open>
  The text that \<open>JSON.stringify(v)\<close> or \<open>JSON.stringify(v, null, indent)\<close> gives is kept
  as the value and the indentation it was made from (0 for the compact form); the
  characters of the text are not modelled.
\<close>

datatype json_text = JSON_stringify json nat

text \<open>Truthiness, as tested by \<open>if (v)\<close> and \<open>v ? a : b\<close>.\<close>

fun truthy :: "json option \<Rightarrow> bool" where
  "truthy None = False"
| "truthy (Some JNull) = False"
| "truthy (Some (JBool b)) = b"
| "truthy (Some (JNum n)) = (n \<noteq> 0)"
| "truthy (Some (JFraction s)) = True"
| "truthy (Some (JStr s)) = (s \<noteq> [])"
| "truthy (Some (JArr xs)) = True"
| "truthy (Some (JObj fs)) = True"

section \<open>Failures\<close>

text \<open>
  The three error classes of the client. \<open>Rapid7AuthError\<close> and
  \<open>Rapid7RateLimitError\<close> extend \<open>Rapid7ClientError\<close>: each constructor calls the base
  constructor and then sets its own \<open>name\<close>. A field that was never assigned is
  \<open>None\<close>.
\<close>

record rapid7_error =
  name :: string
  message :: string
  statusCode :: "nat option"
  retryAfter :: "js_number option"

definition Rapid7ClientError :: "string \<Rightarrow> nat option \<Rightarrow> rapid7_error" where
  "Rapid7ClientError msg code =
     \<lparr>name = ''Rapid7ClientError'', message = msg, statusCode = code, retryAfter = None\<rparr>"

definition Rapid7AuthError :: "string \<Rightarrow> nat option \<Rightarrow> rapid7_error" where
  "Rapid7AuthError msg code = (Rapid7ClientError msg code)\<lparr>name := ''Rapid7AuthError''\<rparr>"

definition Rapid7RateLimitError :: "string \<Rightarrow> js_number option \<Rightarrow> rapid7_error" where
  "Rapid7RateLimitError msg after =
     (Rapid7ClientError msg (Some 429))\<lparr>name := ''Rapid7RateLimitError'', retryAfter := after\<rparr>"

text \<open>
  What a \<open>throw\<close> or a rejected promise carries: an error of the client, another
  \<open>Error\<close> object with its \<open>name\<close> and \<open>message\<close> (a \<open>TypeError\<close>, a
  \<open>SyntaxError\<close>, the \<open>AbortError\<close> of an aborted fetch), or a value that is not an
  \<open>Error\<close>, with the string \<open>String(v)\<close> gives for it.
\<close>

datatype thrown =
  Rapid7 rapid7_error
  | ErrorObject string string
  | NonError string

text \<open>
  Reading a property \<open>v.k\<close> of a decoded value. On \<open>undefined\<close> and \<open>null\<close> the read
  throws a \<open>TypeError\<close> (with the message Node gives); an object gives its member or
  \<open>undefined\<close>; any other value gives \<open>undefined\<close> for the keys the code reads, none of
  which is a built-in property of strings, numbers, booleans, arrays or objects.
\<close>

definition cannot_read :: "string \<Rightarrow> string \<Rightarrow> thrown" where
  "cannot_read what k =
     ErrorObject ''TypeError''
       (''Cannot read properties of '' @ what @ '' (reading '' @ [CHR 0x27] @ k @ [CHR 0x27] @ '')'')"

fun get_prop :: "json option \<Rightarrow> string \<Rightarrow> thrown + json option" where
  "get_prop None k = Inl (cannot_read ''undefined'' k)"
| "get_prop (Some JNull) k = Inl (cannot_read ''null'' k)"
| "get_prop (Some (JObj fs)) k = Inr (map_of fs k)"
| "get_prop (Some v) k = Inr None"

text \<open>
  \<open>`${v}`\<close> for a decoded value: \<open>None\<close> is a \<open>TypeError\<close>. An array is the join of its
  elements with commas, \<open>null\<close> elements giving the empty string. A plain object is
  \<open>[object Object]\<close>, unless it has a member \<open>toString\<close> of its own: that member is not
  a function, and the conversion fails.
\<close>

fun ToString :: "json \<Rightarrow> string option"
  and join_elements :: "json list \<Rightarrow> string option" where
  "ToString JNull = Some ''null''"
| "ToString (JBool b) = Some (if b then ''true'' else ''false'')"
| "ToString (JNum n) = Some (String_number (to_double n))"
| "ToString (JFraction s) = Some s"
| "ToString (JStr s) = Some s"
| "ToString (JArr xs) = join_elements xs"
| "ToString (JObj fs) =
     (if map_of fs ''toString'' = None then Some ''[object Object]'' else None)"
| "join_elements [] = Some []"
| "join_elements (x # xs) =
     (case (if x = JNull then Some [] else ToString x) of
        None \<Rightarrow> None
      | Some s \<Rightarrow>
          if xs = [] then Some s
          else (case join_elements xs of None \<Rightarrow> None | Some r \<Rightarrow> Some (s @ '','' @ r)))"

section \<open>Responses\<close>

text \<open>
  A response of \<open>fetch\<close>: the status line, the header lines as they came, and what
  \<open>response.json()\<close> settles with: the decoded body or the error of a body that is not
  JSON. \<open>headers.get(n)\<close> compares names without regard to case and joins the values
  of the lines of that name with a comma and a space.
\<close>

record response =
  status :: nat
  statusText :: string
  headers :: "(string \<times> string) list"
  json :: "thrown + json"

definition ok :: "response \<Rightarrow> bool" where
  "ok r = (200 \<le> status r \<and> status r \<le> 299)"

definition headers_get :: "(string \<times> string) list \<Rightarrow> string \<Rightarrow> string option" where
  "headers_get hs n =
     (case map snd (filter (\<lambda>h. toLowerCase (fst h) = toLowerCase n) hs) of
        [] \<Rightarrow> None
      | v # vs \<Rightarrow> Some (foldl (\<lambda>acc w. acc @ '', '' @ w) v vs))"

text \<open>
  The \<open>try\<close> block of \<open>handleErrorResponse\<close>: the message of the body is appended when it
  is truthy; whatever throws inside the block (the body is not JSON, the body is
  \<open>null\<close>, the message has no string form) leaves \<open>errorMsg\<close> as it was.
\<close>

definition error_message :: "response \<Rightarrow> string" where
  "error_message r =
     (let errorMsg = string_of_nat (status r) @ '' '' @ statusText r
      in case json r of
           Inl e \<Rightarrow> errorMsg
         | Inr errorBody \<Rightarrow>
             (case get_prop (Some errorBody) ''message'' of
                Inl e \<Rightarrow> errorMsg
              | Inr None \<Rightarrow> errorMsg
              | Inr (Some m) \<Rightarrow>
                  if truthy (Some m)
                  then (case ToString m of
                          None \<Rightarrow> errorMsg
                        | Some detail \<Rightarrow> errorMsg @ '': '' @ detail)
                  else errorMsg))"

text \<open>\<open>handleErrorResponse\<close> never returns: its value is the error it throws.\<close>

definition handleErrorResponse :: "response \<Rightarrow> rapid7_error" where
  "handleErrorResponse r =
     (let errorMsg = error_message r
      in if status r = 401 \<or> status r = 403
         then Rapid7AuthError (''Authentication failed: '' @ errorMsg) (Some (status r))
         else if status r = 429
         then (let ra = headers_get (headers r) ''Retry-After''
               in Rapid7RateLimitError (''Rate limited: '' @ errorMsg)
                    (case truthy_string ra of None \<Rightarrow> None | Some h \<Rightarrow> Some (parseInt h)))
         else Rapid7ClientError (''Request failed: '' @ errorMsg) (Some (status r)))"

section \<open>The request pipeline\<close>

subsection \<open>URL and query parameters\<close>

text \<open>
  A value of the \<open>params\<close> record. The declared type has strings, numbers, booleans and
  \<open>undefined\<close>; the loop also tests for \<open>null\<close>. A number with a fractional part is
  \<open>PFraction\<close> of the text that \<open>String\<close> writes for it.
\<close>

datatype param_value =
  PString string
  | PNumber js_number
  | PFraction string
  | PBoolean bool
  | PUndefined
  | PNull

fun String_param :: "param_value \<Rightarrow> string" where
  "String_param (PString s) = s"
| "String_param (PNumber n) = String_number n"
| "String_param (PFraction s) = s"
| "String_param (PBoolean b) = (if b then ''true'' else ''false'')"
| "String_param PUndefined = ''undefined''"
| "String_param PNull = ''null''"

text \<open>
  The \<open>URL\<close> object: the text before its query, the query (\<open>None\<close> when it has
  none), the fragment, and \<open>searchParams\<close>, the list of name-value pairs of the
  query. The parser \<open>new URL(text)\<close> belongs to the runtime: it is a parameter of the
  model, a function from the text to the object it makes or to the \<open>TypeError\<close> it
  throws on a text that is no absolute URL.
\<close>

record URL =
  before_query :: string
  query :: "string option"
  fragment :: "string option"
  searchParams :: "(string \<times> string) list"

type_synonym url_parser = "string \<Rightarrow> thrown + URL"

text \<open>
  \<open>searchParams.set(k, v)\<close>: the first pair named \<open>k\<close> takes the value and the other
  pairs named \<open>k\<close> are removed; with no such pair, the new one is appended.
\<close>

fun searchParams_set :: "string \<Rightarrow> string \<Rightarrow> (string \<times> string) list \<Rightarrow> (string \<times> string) list" where
  "searchParams_set k v [] = [(k, v)]"
| "searchParams_set k v (p # ps) =
     (if fst p = k then (k, v) # filter (\<lambda>q. fst q \<noteq> k) ps
      else p # searchParams_set k v ps)"

text \<open>
  The serialisation of the query (\<open>application/x-www-form-urlencoded\<close>): letters, digits
  and \<open>* - . _\<close> stay, a space is \<open>+\<close>, every other byte is \<open>%\<close> and two upper-case
  hexadecimal digits.
\<close>

definition hex_digit :: "nat \<Rightarrow> char" where
  "hex_digit d = ''0123456789ABCDEF'' ! (d mod 16)"

definition unreserved :: "char \<Rightarrow> bool" where
  "unreserved c =
     (c \<in> set ''ABCDEFGHIJKLMNOPQRSTUVWXYZabcdefghijklmnopqrstuvwxyz0123456789*-._'')"

definition encode_byte :: "char \<Rightarrow> string" where
  "encode_byte c =
     (if unreserved c then [c]
      else if c = CHR '' '' then ''+''
      else [CHR ''%'', hex_digit (of_char c div 16), hex_digit (of_char c mod 16)])"

definition urlencode :: "string \<Rightarrow> string" where
  "urlencode s = concat (map encode_byte s)"

fun serialize_query :: "(string \<times> string) list \<Rightarrow> string" where
  "serialize_query [] = []"
| "serialize_query [p] = urlencode (fst p) @ ''='' @ urlencode (snd p)"
| "serialize_query (p # q # ps) =
     urlencode (fst p) @ ''='' @ urlencode (snd p) @ ''&'' @ serialize_query (q # ps)"

text \<open>
  \<open>url.searchParams.set(k, v)\<close> on the object: the list changes and the query becomes
  its serialisation (no query when that is empty).
\<close>

definition URL_set :: "string \<Rightarrow> string \<Rightarrow> URL \<Rightarrow> URL" where
  "URL_set k v u =
     (let sp = searchParams_set k v (searchParams u);
          q = serialize_query sp
      in u\<lparr>searchParams := sp, query := (if q = [] then None else Some q)\<rparr>)"

definition URL_toString :: "URL \<Rightarrow> string" where
  "URL_toString u =
     before_query u
     @ (case query u of None \<Rightarrow> [] | Some q \<Rightarrow> ''?'' @ q)
     @ (case fragment u of None \<Rightarrow> [] | Some f \<Rightarrow> ''#'' @ f)"

text \<open>
  The loop over \<open>Object.entries(params)\<close>; the record is the list of its entries, in the
  order \<open>Object.entries\<close> gives them.
\<close>

fun set_params :: "(string \<times> param_value) list \<Rightarrow> URL \<Rightarrow> URL" where
  "set_params [] u = u"
| "set_params ((k, v) # es) u =
     set_params es
       (if v \<noteq> PUndefined \<and> v \<noteq> PNull then URL_set k (String_param v) u else u)"

text \<open>
  The first lines of \<open>request\<close>: the URL is parsed from the base URL followed by the
  endpoint, and the parameters are set on it. A \<open>TypeError\<close> of the parser leaves
  \<open>request\<close> at once.
\<close>

definition build_url ::
  "Rapid7Config \<Rightarrow> url_parser \<Rightarrow> string \<Rightarrow> (string \<times> param_value) list option
     \<Rightarrow> thrown + URL" where
  "build_url cfg new_URL endpoint params =
     (case new_URL (baseUrl cfg @ endpoint) of
        Inl e \<Rightarrow> Inl e
      | Inr u \<Rightarrow> Inr (case params of None \<Rightarrow> u | Some es \<Rightarrow> set_params es u))"

subsection \<open>Timers\<close>

text \<open>
  The timers of the runtime: the identifiers of the timers that are pending, and the
  next identifier \<open>setTimeout\<close> hands out. A timer leaves the pending ones when it is
  cleared or when it fires.
\<close>

record runtime =
  pending :: "nat list"
  next_id :: nat

definition setTimeout :: "runtime \<Rightarrow> nat \<times> runtime" where
  "setTimeout rt = (next_id rt, rt\<lparr>pending := next_id rt # pending rt, next_id := Suc (next_id rt)\<rparr>)"

definition clearTimeout :: "nat \<Rightarrow> runtime \<Rightarrow> runtime" where
  "clearTimeout t rt = rt\<lparr>pending := removeAll t (pending rt)\<rparr>"

definition fire :: "nat \<Rightarrow> runtime \<Rightarrow> runtime" where
  "fire t rt = rt\<lparr>pending := removeAll t (pending rt)\<rparr>"

text \<open>
  \<open>createAbortSignal\<close> starts the timer whose callback aborts the controller; the
  signal is known by the timer's identifier, and \<open>clear\<close> is \<open>clearTimeout\<close> of it.
\<close>

definition createAbortSignal :: "runtime \<Rightarrow> nat \<times> runtime" where
  "createAbortSignal rt = setTimeout rt"

subsection \<open>The network call\<close>

record fetch_init =
  req_url :: string
  req_method :: string
  req_headers :: "(string \<times> string) list"
  req_body :: "json_text option"
  req_signal :: nat

text \<open>
  How the awaited \<open>fetch\<close> settles: the timer of the call fires first, the controller
  aborts and the promise rejects with an \<open>AbortError\<close>; or the promise rejects with
  something else; or it resolves with a response.
\<close>

datatype fetch_event =
  TimerFires
  | Rejects thrown
  | Resolves response

definition abort_error :: thrown where
  "abort_error = ErrorObject ''AbortError'' ''This operation was aborted''"

definition await_fetch :: "fetch_event \<Rightarrow> nat \<Rightarrow> runtime \<Rightarrow> (thrown + response) \<times> runtime" where
  "await_fetch ev t rt =
     (case ev of
        TimerFires \<Rightarrow> (Inl abort_error, fire t rt)
      | Rejects e \<Rightarrow> (Inl e, rt)
      | Resolves r \<Rightarrow> (Inr r, rt))"

text \<open>\<open>error instanceof Error && error.name === "AbortError"\<close>\<close>

fun is_abort :: "thrown \<Rightarrow> bool" where
  "is_abort (Rapid7 e) = (name e = ''AbortError'')"
| "is_abort (ErrorObject n m) = (n = ''AbortError'')"
| "is_abort (NonError s) = False"

definition make_init ::
  "Rapid7Config \<Rightarrow> string \<Rightarrow> URL \<Rightarrow> json option \<Rightarrow> nat \<Rightarrow> fetch_init" where
  "make_init cfg method url body signal =
     \<lparr>req_url = URL_toString url,
      req_method = method,
      req_headers =
        [(''X-Api-Key'', apiKey cfg),
         (''Content-Type'', ''application/json''),
         (''Accept'', ''application/json'')],
      req_body = (case body of
                    None \<Rightarrow> None
                  | Some b \<Rightarrow> if truthy (Some b) then Some (JSON_stringify b 0) else None),
      req_signal = signal\<rparr>"

text \<open>
  \<open>request\<close>. The network is the function \<open>fetch\<close>, from the request that is sent to
  the way the call settles. The result is what \<open>request\<close> returns or throws, and the
  timers after it. \<open>clear()\<close> is called in the \<open>catch\<close> block and again after the
  \<open>try\<close> statement.
\<close>

definition request ::
  "Rapid7Config \<Rightarrow> url_parser \<Rightarrow> (fetch_init \<Rightarrow> fetch_event) \<Rightarrow> string \<Rightarrow> string
     \<Rightarrow> (string \<times> param_value) list option \<Rightarrow> json option \<Rightarrow> runtime
     \<Rightarrow> (thrown + json) \<times> runtime" where
  "request cfg new_URL fetch method endpoint params body rt =
     (case build_url cfg new_URL endpoint params of
        Inl e \<Rightarrow> (Inl e, rt)
      | Inr url \<Rightarrow>
          (let (signal, rt1) = createAbortSignal rt;
               (s, rt2) = await_fetch (fetch (make_init cfg method url body signal)) signal rt1
           in case s of
                Inl error \<Rightarrow>
                  (let rt3 = clearTimeout signal rt2
                   in if is_abort error
                      then (Inl (Rapid7 (Rapid7ClientError
                              (''InsightIDR API timeout after '' @ String_number (timeout cfg)
                                 @ ''ms'')
                              None)), rt3)
                      else (Inl error, rt3))
              | Inr r \<Rightarrow>
                  (let rt3 = clearTimeout signal rt2
                   in if \<not> ok r then (Inl (Rapid7 (handleErrorResponse r)), rt3)
                      else if status r = 204 then (Inr (JObj []), rt3)
                      else (json r, rt3))))"

definition get ::
  "Rapid7Config \<Rightarrow> url_parser \<Rightarrow> (fetch_init \<Rightarrow> fetch_event) \<Rightarrow> string
     \<Rightarrow> (string \<times> param_value) list option \<Rightarrow> runtime \<Rightarrow> (thrown + json) \<times> runtime" where
  "get cfg new_URL fetch endpoint params rt =
     request cfg new_URL fetch ''GET'' endpoint params None rt"

definition getInvestigation ::
  "Rapid7Config \<Rightarrow> url_parser \<Rightarrow> (fetch_init \<Rightarrow> fetch_event) \<Rightarrow> string \<Rightarrow> runtime
     \<Rightarrow> (thrown + json) \<times> runtime" where
  "getInvestigation cfg new_URL fetch investigationId rt =
     get cfg new_URL fetch (''/idr/v2/investigations/'' @ investigationId) None rt"

definition getInvestigationTimeline ::
  "Rapid7Config \<Rightarrow> url_parser \<Rightarrow> (fetch_init \<Rightarrow> fetch_event) \<Rightarrow> string
     \<Rightarrow> (string \<times> param_value) list \<Rightarrow> runtime \<Rightarrow> (thrown + json) \<times> runtime" where
  "getInvestigationTimeline cfg new_URL fetch investigationId params rt =
     get cfg new_URL fetch (''/idr/v2/investigations/'' @ investigationId @ ''/timeline'')
       (Some params) rt"

section \<open>The investigation-detail handler\<close>

text \<open>
  What a handler gives back to the host: the text of its one content item, and
  \<open>isError\<close> (\<open>False\<close> when the field is left out).
\<close>

record tool_result =
  content_text :: json_text
  isError :: bool

text \<open>\<open>error instanceof Error ? error.message : String(error)\<close>\<close>

fun error_text :: "thrown \<Rightarrow> string" where
  "error_text (Rapid7 e) = message e"
| "error_text (ErrorObject n m) = m"
| "error_text (NonError s) = s"

text \<open>\<open>p.catch(() => ({ data: [] }))\<close>\<close>

definition catch_empty :: "thrown + json \<Rightarrow> thrown + json" where
  "catch_empty p = (case p of Inl e \<Rightarrow> Inr (JObj [(''data'', JArr [])]) | Inr v \<Rightarrow> Inr v)"

text \<open>
  \<open>Promise.all([p, q])\<close> rejects as soon as one of the two rejects. When both reject,
  the earlier rejection wins; the model takes the one of \<open>p\<close>, and the handler's
  \<open>q\<close> never rejects.
\<close>

definition Promise_all :: "thrown + 'a \<Rightarrow> thrown + 'b \<Rightarrow> thrown + ('a \<times> 'b)" where
  "Promise_all p q =
     (case p of
        Inl e \<Rightarrow> Inl e
      | Inr a \<Rightarrow> (case q of Inl e \<Rightarrow> Inl e | Inr b \<Rightarrow> Inr (a, b)))"

definition investigation_fields :: "string list" where
  "investigation_fields =
     [''id'', ''rrn'', ''title'', ''status'', ''priority'', ''disposition'', ''assignee'',
      ''created_time'', ''last_accessed'', ''source'', ''organization_id'', ''threat_type'',
      ''responsibility'', ''tags'', ''alerts_most_recent_evidence'',
      ''alerts_most_recent_created_time'']"

text \<open>The reads \<open>inv.id\<close>, \<open>inv.rrn\<close>, ... in the order of the object literal.\<close>

fun read_props :: "json option \<Rightarrow> string list \<Rightarrow> thrown + (string \<times> json option) list" where
  "read_props v [] = Inr []"
| "read_props v (k # ks) =
     (case get_prop v k of
        Inl e \<Rightarrow> Inl e
      | Inr x \<Rightarrow> (case read_props v ks of Inl e \<Rightarrow> Inl e | Inr xs \<Rightarrow> Inr ((k, x) # xs)))"

text \<open>
  The object that \<open>JSON.stringify\<close> writes for an object literal: a property whose
  value is \<open>undefined\<close> is left out.
\<close>

fun object_literal :: "(string \<times> json option) list \<Rightarrow> (string \<times> json) list" where
  "object_literal [] = []"
| "object_literal ((k, None) # ps) = object_literal ps"
| "object_literal ((k, Some v) # ps) = (k, v) # object_literal ps"

text \<open>The \<open>try\<close> block of the handler, from the two settled client calls.\<close>

definition get_investigation_try :: "thrown + json \<Rightarrow> thrown + json \<Rightarrow> thrown + tool_result" where
  "get_investigation_try invP timelineP =
     (case Promise_all invP (catch_empty timelineP) of
        Inl e \<Rightarrow> Inl e
      | Inr (invResponse, timelineResponse) \<Rightarrow>
          (case get_prop (Some invResponse) ''data'' of
             Inl e \<Rightarrow> Inl e
           | Inr investigation \<Rightarrow>
               (case read_props investigation investigation_fields of
                  Inl e \<Rightarrow> Inl e
                | Inr props \<Rightarrow>
                    (case get_prop (Some timelineResponse) ''data'' of
                       Inl e \<Rightarrow> Inl e
                     | Inr timeline \<Rightarrow>
                         Inr \<lparr>content_text =
                                JSON_stringify (JObj (object_literal (props @ [(''timeline'', timeline)]))) 2,
                              isError = False\<rparr>))))"

text \<open>The \<open>catch\<close> block of the handler.\<close>

definition get_investigation_catch :: "thrown \<Rightarrow> tool_result" where
  "get_investigation_catch error =
     \<lparr>content_text = JSON_stringify (JObj [(''error'', JStr (error_text error))]) 0,
      isError = True\<rparr>"

definition try_catch :: "thrown + 'a \<Rightarrow> (thrown \<Rightarrow> 'a) \<Rightarrow> thrown + 'a" where
  "try_catch block handler = (case block of Inl e \<Rightarrow> Inr (handler e) | Inr v \<Rightarrow> Inr v)"

text \<open>
  The handler of \<open>get_investigation\<close>. The two client calls are started together; each
  has its own timer and its own \<open>fetch\<close> and reads nothing the other writes, so the
  model runs the second after the first.
\<close>

definition get_investigation ::
  "Rapid7Config \<Rightarrow> url_parser \<Rightarrow> (fetch_init \<Rightarrow> fetch_event) \<Rightarrow> string \<Rightarrow> runtime
     \<Rightarrow> (thrown + tool_result) \<times> runtime" where
  "get_investigation cfg new_URL fetch investigation_id rt =
     (let (invP, rt1) = getInvestigation cfg new_URL fetch investigation_id rt;
          (timelineP, rt2) = getInvestigationTimeline cfg new_URL fetch investigation_id [] rt1
      in (try_catch (get_investigation_try invP timelineP) get_investigation_catch, rt2))"

section \<open>Inputs of the properties\<close>

text \<open>
  The request that \<open>request\<close> hands to \<open>fetch\<close>, when the URL parses: its signal is
  the one of the timer that \<open>createAbortSignal\<close> starts.
\<close>

definition sent ::
  "Rapid7Config \<Rightarrow> url_parser \<Rightarrow> string \<Rightarrow> string \<Rightarrow> (string \<times> param_value) list option
     \<Rightarrow> json option \<Rightarrow> runtime \<Rightarrow> fetch_init option" where
  "sent cfg new_URL method endpoint params body rt =
     (case build_url cfg new_URL endpoint params of
        Inl e \<Rightarrow> None
      | Inr url \<Rightarrow> Some (make_init cfg method url body (fst (createAbortSignal rt))))"

text \<open>What \<open>request\<close> returns or throws for each way the \<open>fetch\<close> settles.\<close>

definition outcome :: "Rapid7Config \<Rightarrow> fetch_event \<Rightarrow> thrown + json" where
  "outcome cfg ev =
     (case ev of
        TimerFires \<Rightarrow>
          Inl (Rapid7 \<lparr>name = ''Rapid7ClientError'',
                 message = ''InsightIDR API timeout after '' @ String_number (timeout cfg) @ ''ms'',
                 statusCode = None, retryAfter = None\<rparr>)
      | Rejects e \<Rightarrow>
          if is_abort e
          then Inl (Rapid7 \<lparr>name = ''Rapid7ClientError'',
                 message = ''InsightIDR API timeout after '' @ String_number (timeout cfg) @ ''ms'',
                 statusCode = None, retryAfter = None\<rparr>)
          else Inl e
      | Resolves r \<Rightarrow>
          if \<not> ok r then Inl (Rapid7 (handleErrorResponse r))
          else if status r = 204 then Inr (JObj [])
          else json r)"

text \<open>
  What the two client calls of the handler settle with: the fetch of the investigation
  and the fetch of its timeline.
\<close>

definition investigation_call ::
  "Rapid7Config \<Rightarrow> url_parser \<Rightarrow> (fetch_init \<Rightarrow> fetch_event) \<Rightarrow> string \<Rightarrow> runtime
     \<Rightarrow> thrown + json" where
  "investigation_call cfg new_URL fetch investigation_id rt =
     fst (getInvestigation cfg new_URL fetch investigation_id rt)"

definition timeline_call ::
  "Rapid7Config \<Rightarrow> url_parser \<Rightarrow> (fetch_init \<Rightarrow> fetch_event) \<Rightarrow> string \<Rightarrow> runtime
     \<Rightarrow> thrown + json" where
  "timeline_call cfg new_URL fetch investigation_id rt =
     fst (getInvestigationTimeline cfg new_URL fetch investigation_id []
            (snd (getInvestigation cfg new_URL fetch investigation_id rt)))"

text \<open>
  For the concrete cases: a configuration, a runtime with no timer, and the URL parser
  on the texts that occur there. Each of them is an absolute URL in normal form with no
  query and no fragment, which the parser keeps as it is; on a text that does not begin
  with a scheme the parser throws.
\<close>

definition example_config :: Rapid7Config where
  "example_config =
     \<lparr>baseUrl = ''https://us.api.example.com'', apiKey = ''key'', region = ''us'',
      timeout = Num 30000\<rparr>"

definition idle_runtime :: runtime where
  "idle_runtime = \<lparr>pending = [], next_id = 0\<rparr>"

definition example_new_URL :: url_parser where
  "example_new_URL text =
     (if text \<in> set [''https://us.api.example.com/idr/v2/alerts'',
                      ''https://us.api.example.com/idr/v2/alerts/1'',
                      ''https://us.api.example.com/idr/v2/investigations'',
                      ''https://us.api.example.com/idr/v2/investigations/abc'',
                      ''https://us.api.example.com/idr/v2/investigations/abc/timeline'']
      then Inr \<lparr>before_query = text, query = None, fragment = None, searchParams = []\<rparr>
      else Inl (ErrorObject ''TypeError'' ''Invalid URL''))"

text \<open>
  A network for the concrete cases: the timeline answers with status 500, every other
  request gets an investigation.
\<close>

definition example_fetch :: "fetch_init \<Rightarrow> fetch_event" where
  "example_fetch i =
     (if req_url i = ''https://us.api.example.com/idr/v2/investigations/abc/timeline''
      then Resolves \<lparr>status = 500, statusText = ''Internal Server Error'', headers = [],
                     json = Inr JNull\<rparr>
      else Resolves \<lparr>status = 200, statusText = ''OK'', headers = [],
                     json = Inr (JObj [(''data'',
                              JObj [(''id'', JStr ''abc''), (''title'', JStr ''t'')])])\<rparr>)"

text \<open>A positive integer number of milliseconds, as the data model asks of a timeout.\<close>

definition positive_integer :: "js_number \<Rightarrow> bool" where
  "positive_integer x = (case x of Num n \<Rightarrow> 0 < n | _ \<Rightarrow> False)"

section \<open>Properties of the request pipeline\<close>

subsection \<open>How a call settles\<close>

lemma request_parse_error:
  "build_url cfg new_URL endpoint params = Inl e \<Longrightarrow>
   request cfg new_URL fetch method endpoint params body rt = (Inl e, rt)"
  by (simp add: request_def)

lemma request_outcome:
  "sent cfg new_URL method endpoint params body rt = Some i \<Longrightarrow>
   fst (request cfg new_URL fetch method endpoint params body rt) = outcome cfg (fetch i)"
  by (cases "fetch i")
     (auto simp add: request_def sent_def outcome_def await_fetch_def abort_error_def
        createAbortSignal_def setTimeout_def Rapid7ClientError_def Let_def
        split: sum.splits)

lemma request_pending:
  "sent cfg new_URL method endpoint params body rt = Some i \<Longrightarrow>
   pending (snd (request cfg new_URL fetch method endpoint params body rt)) =
     removeAll (next_id rt) (pending rt)"
  by (cases "fetch i")
     (auto simp add: request_def sent_def await_fetch_def createAbortSignal_def setTimeout_def
        clearTimeout_def fire_def Let_def split: sum.splits)

lemma sent_None:
  "sent cfg new_URL method endpoint params body rt = None \<Longrightarrow>
   \<exists>e. build_url cfg new_URL endpoint params = Inl e"
  by (simp add: sent_def split: sum.splits)

lemma sent_parsed:
  "new_URL (baseUrl cfg @ endpoint) = Inr u \<Longrightarrow>
   sent cfg new_URL method endpoint params body rt =
     Some (make_init cfg method (case params of None \<Rightarrow> u | Some es \<Rightarrow> set_params es u) body
             (fst (createAbortSignal rt)))"
  by (simp add: sent_def build_url_def)


lemma handleErrorResponse_auth:
  "status r = 401 \<or> status r = 403 \<Longrightarrow>
   name (handleErrorResponse r) = ''Rapid7AuthError'' \<and>
   statusCode (handleErrorResponse r) = Some (status r)"
  by (auto simp add: handleErrorResponse_def Rapid7AuthError_def Rapid7ClientError_def Let_def)

lemma handleErrorResponse_rate:
  "status r = 429 \<Longrightarrow>
   handleErrorResponse r =
     \<lparr>name = ''Rapid7RateLimitError'',
      message = ''Rate limited: '' @ error_message r,
      statusCode = Some 429,
      retryAfter = (case truthy_string (headers_get (headers r) ''Retry-After'') of
                      None \<Rightarrow> None | Some h \<Rightarrow> Some (parseInt h))\<rparr>"
  by (simp add: handleErrorResponse_def Rapid7RateLimitError_def Rapid7ClientError_def Let_def)

lemma handleErrorResponse_generic:
  "status r \<noteq> 401 \<Longrightarrow> status r \<noteq> 403 \<Longrightarrow> status r \<noteq> 429 \<Longrightarrow>
   handleErrorResponse r =
     \<lparr>name = ''Rapid7ClientError'',
      message = ''Request failed: '' @ error_message r,
      statusCode = Some (status r),
      retryAfter = None\<rparr>"
  by (simp add: handleErrorResponse_def Rapid7ClientError_def Let_def)

lemma error_message_prefix:
  "\<exists>detail. error_message r = string_of_nat (status r) @ '' '' @ statusText r @ detail"
  by (auto simp add: error_message_def Let_def split: sum.splits option.splits)

lemma baseUrl_example_config: "baseUrl example_config = ''https://us.api.example.com''"
  by (simp add: example_config_def)

lemma example_sent:
  "sent example_config example_new_URL verb ''/idr/v2/alerts'' None body rt =
     Some (make_init example_config verb
             \<lparr>before_query = ''https://us.api.example.com/idr/v2/alerts'', query = None,
              fragment = None, searchParams = []\<rparr> body (next_id rt))"
  by (simp add: sent_def build_url_def baseUrl_example_config example_new_URL_def
      createAbortSignal_def setTimeout_def)

subsection \<open>Classification of error responses\<close>

text \<open>
  C1. Every response whose status is not a success makes \<open>request\<close> throw one error of
  the client, and the status decides its class: \<open>Rapid7AuthError\<close> with the status
  of the response for 401 and 403, \<open>Rapid7RateLimitError\<close> for 429, and for every
  other status \<open>Rapid7ClientError\<close> with the status of the response and a message
  that holds the status in decimal.
\<close>

theorem C1_classification_total:
  assumes "sent cfg new_URL method endpoint params body rt = Some i"
    and "fetch i = Resolves r"
    and "\<not> ok r"
  shows "\<exists>e. fst (request cfg new_URL fetch method endpoint params body rt) = Inl (Rapid7 e) \<and>
     (if status r = 401 \<or> status r = 403
      then name e = ''Rapid7AuthError'' \<and> statusCode e = Some (status r)
      else if status r = 429
      then name e = ''Rapid7RateLimitError'' \<and> statusCode e = Some 429
      else name e = ''Rapid7ClientError'' \<and> statusCode e = Some (status r) \<and>
           (\<exists>detail. message e = ''Request failed: '' @ string_of_nat (status r) @ detail))"
proof -
  let ?e = "handleErrorResponse r"
  have res: "fst (request cfg new_URL fetch method endpoint params body rt) = Inl (Rapid7 ?e)"
    using assms by (simp add: request_outcome outcome_def)
  consider (auth) "status r = 401 \<or> status r = 403"
    | (rate) "status r = 429"
    | (other) "status r \<noteq> 401" "status r \<noteq> 403" "status r \<noteq> 429"
    by blast
  then have "if status r = 401 \<or> status r = 403
      then name ?e = ''Rapid7AuthError'' \<and> statusCode ?e = Some (status r)
      else if status r = 429
      then name ?e = ''Rapid7RateLimitError'' \<and> statusCode ?e = Some 429
      else name ?e = ''Rapid7ClientError'' \<and> statusCode ?e = Some (status r) \<and>
           (\<exists>detail. message ?e = ''Request failed: '' @ string_of_nat (status r) @ detail)"
  proof cases
    case auth
    then show ?thesis using handleErrorResponse_auth [of r] by simp
  next
    case rate
    then show ?thesis by (simp add: handleErrorResponse_rate)
  next
    case other
    obtain d where "error_message r = string_of_nat (status r) @ '' '' @ statusText r @ d"
      using error_message_prefix by blast
    then show ?thesis using other by (simp add: handleErrorResponse_generic)
  qed
  with res show ?thesis by blast
qed

theorem C1_classification_total_witness:
  "\<not> ok \<lparr>status = 500, statusText = ''Internal Server Error'', headers = [], json = Inr JNull\<rparr> \<and>
   (\<exists>e. fst (request example_config example_new_URL
            (\<lambda>i. Resolves \<lparr>status = 500, statusText = ''Internal Server Error'', headers = [],
                             json = Inr JNull\<rparr>)
            ''GET'' ''/idr/v2/alerts'' None None idle_runtime) = Inl (Rapid7 e) \<and>
        name e = ''Rapid7ClientError'' \<and> statusCode e = Some 500 \<and>
        (\<exists>detail. message e = ''Request failed: '' @ ''500'' @ detail))"
proof -
  let ?r = "\<lparr>status = 500, statusText = ''Internal Server Error'', headers = [], json = Inr JNull\<rparr>"
  have h: "\<not> ok ?r" by (simp add: ok_def)
  have s: "string_of_nat 500 = ''500''" by (simp add: string_of_nat.simps digit_char_def)
  show ?thesis
    using h C1_classification_total [OF example_sent, of "\<lambda>i. Resolves ?r" "''GET''" None
        idle_runtime ?r]
    by (simp add: s)
qed

subsection \<open>Timeout and transport failures\<close>

text \<open>
  C3. When the timer of the call fires before \<open>fetch\<close> settles, and whenever \<open>fetch\<close>
  rejects with an \<open>Error\<close> named \<open>AbortError\<close>, \<open>request\<close> throws a
  \<open>Rapid7ClientError\<close> whose message holds the configured timeout followed by
  \<open>ms\<close> and whose \<open>statusCode\<close> is \<open>undefined\<close>. Any other rejection of \<open>fetch\<close> is
  thrown on as it is.
\<close>

theorem C3_timeout_and_transport_errors:
  assumes "sent cfg new_URL method endpoint params body rt = Some i"
  shows "(fetch i = TimerFires \<longrightarrow>
      fst (request cfg new_URL fetch method endpoint params body rt) =
        Inl (Rapid7 \<lparr>name = ''Rapid7ClientError'',
               message = ''InsightIDR API timeout after '' @ String_number (timeout cfg) @ ''ms'',
               statusCode = None, retryAfter = None\<rparr>)) \<and>
   (fetch i = Rejects e \<longrightarrow>
      fst (request cfg new_URL fetch method endpoint params body rt) =
        (if is_abort e
         then Inl (Rapid7 \<lparr>name = ''Rapid7ClientError'',
                message = ''InsightIDR API timeout after '' @ String_number (timeout cfg) @ ''ms'',
                statusCode = None, retryAfter = None\<rparr>)
         else Inl e))"
  using request_outcome [OF assms, of fetch] by (simp add: outcome_def)

theorem C3_timeout_and_transport_errors_witness:
  "fst (request example_config example_new_URL (\<lambda>i. TimerFires) ''GET'' ''/idr/v2/alerts'' None
          None idle_runtime) =
     Inl (Rapid7 \<lparr>name = ''Rapid7ClientError'',
            message = ''InsightIDR API timeout after 30000ms'',
            statusCode = None, retryAfter = None\<rparr>) \<and>
   \<not> is_abort (ErrorObject ''TypeError'' ''fetch failed'') \<and>
   fst (request example_config example_new_URL
          (\<lambda>i. Rejects (ErrorObject ''TypeError'' ''fetch failed''))
          ''GET'' ''/idr/v2/alerts'' None None idle_runtime) =
     Inl (ErrorObject ''TypeError'' ''fetch failed'')"
proof -
  have s: "String_number (timeout example_config) = ''30000''"
    by (simp add: example_config_def render_nat_def string_of_nat.simps digit_char_def)
  show ?thesis
    using C3_timeout_and_transport_errors [OF example_sent, of "\<lambda>i. TimerFires" "''GET''" None
        idle_runtime]
      C3_timeout_and_transport_errors [OF example_sent,
        of "\<lambda>i. Rejects (ErrorObject ''TypeError'' ''fetch failed'')" "''GET''" None
        idle_runtime "ErrorObject ''TypeError'' ''fetch failed''"]
    by (simp add: s)
qed


subsection \<open>Success with no content\<close>

text \<open>
  C5. For every response with status 204 \<open>request\<close> returns the empty object, whatever
  the body of the response is.
\<close>

theorem C5_no_content_empty_object:
  assumes "sent cfg new_URL method endpoint params body rt = Some i"
    and "fetch i = Resolves r"
    and "status r = 204"
  shows "fst (request cfg new_URL fetch method endpoint params body rt) = Inr (JObj [])"
  using assms by (simp add: request_outcome outcome_def ok_def)

theorem C5_no_content_empty_object_witness:
  "fst (request example_config example_new_URL
     (\<lambda>i. Resolves \<lparr>status = 204, statusText = ''No Content'', headers = [],
                      json = Inr (JObj [(''data'', JArr [JNum 1])])\<rparr>)
     ''PATCH'' ''/idr/v2/alerts'' None (Some (JObj [(''status'', JStr ''CLOSED'')]))
     idle_runtime) = Inr (JObj []) \<and>
   fst (request example_config example_new_URL
     (\<lambda>i. Resolves \<lparr>status = 204, statusText = ''No Content'', headers = [],
                      json = Inl (ErrorObject ''SyntaxError'' ''Unexpected end of JSON input'')\<rparr>)
     ''PATCH'' ''/idr/v2/alerts'' None (Some (JObj [(''status'', JStr ''CLOSED'')]))
     idle_runtime) = Inr (JObj [])"
  using C5_no_content_empty_object [OF example_sent, of
      "\<lambda>i. Resolves \<lparr>status = 204, statusText = ''No Content'', headers = [],
                      json = Inr (JObj [(''data'', JArr [JNum 1])])\<rparr>"
      "''PATCH''" "Some (JObj [(''status'', JStr ''CLOSED'')])" idle_runtime
      "\<lparr>status = 204, statusText = ''No Content'', headers = [],
        json = Inr (JObj [(''data'', JArr [JNum 1])])\<rparr>"]
    C5_no_content_empty_object [OF example_sent, of
      "\<lambda>i. Resolves \<lparr>status = 204, statusText = ''No Content'', headers = [],
                      json = Inl (ErrorObject ''SyntaxError'' ''Unexpected end of JSON input'')\<rparr>"
      "''PATCH''" "Some (JObj [(''status'', JStr ''CLOSED'')])" idle_runtime
      "\<lparr>status = 204, statusText = ''No Content'', headers = [],
        json = Inl (ErrorObject ''SyntaxError'' ''Unexpected end of JSON input'')\<rparr>"]
  by simp

subsection \<open>The timer\<close>

text \<open>
  C6. The timer that \<open>request\<close> starts is pending once \<open>createAbortSignal\<close> has
  run and is not pending when \<open>request\<close> has returned or thrown, however \<open>fetch\<close>
  settles: the timers pending afterwards are those pending before, without the one of
  this call. When the URL does not parse, \<open>request\<close> throws before it starts a timer
  and the timers are untouched. When every pending timer has an identifier that was
  already handed out, the timers pending afterwards are the timers pending before.
\<close>

theorem C6_timer_cleared_on_every_path:
  "fst (createAbortSignal rt) \<in> set (pending (snd (createAbortSignal rt))) \<and>
   (sent cfg new_URL method endpoint params body rt = Some i \<longrightarrow>
      fst (createAbortSignal rt) \<notin>
        set (pending (snd (request cfg new_URL fetch method endpoint params body rt))) \<and>
      pending (snd (request cfg new_URL fetch method endpoint params body rt)) =
        removeAll (fst (createAbortSignal rt)) (pending rt)) \<and>
   (sent cfg new_URL method endpoint params body rt = None \<longrightarrow>
      snd (request cfg new_URL fetch method endpoint params body rt) = rt) \<and>
   ((\<forall>t \<in> set (pending rt). t < next_id rt) \<longrightarrow>
      pending (snd (request cfg new_URL fetch method endpoint params body rt)) = pending rt)"
proof -
  have t: "fst (createAbortSignal rt) = next_id rt"
    by (simp add: createAbortSignal_def setTimeout_def)
  have 1: "fst (createAbortSignal rt) \<in> set (pending (snd (createAbortSignal rt)))"
    by (simp add: createAbortSignal_def setTimeout_def)
  have 3: "sent cfg new_URL method endpoint params body rt = None \<longrightarrow>
      snd (request cfg new_URL fetch method endpoint params body rt) = rt"
    by (auto dest!: sent_None simp add: request_parse_error)
  have 4: "(\<forall>t \<in> set (pending rt). t < next_id rt) \<longrightarrow>
      pending (snd (request cfg new_URL fetch method endpoint params body rt)) = pending rt"
  proof (cases "sent cfg new_URL method endpoint params body rt")
    case None
    then show ?thesis using 3 by simp
  next
    case (Some j)
    then show ?thesis by (auto simp add: request_pending)
  qed
  from 1 3 4 show ?thesis by (simp add: t request_pending)
qed

theorem C6_timer_cleared_on_every_path_witness:
  "pending (snd (createAbortSignal \<lparr>pending = [3], next_id = 5\<rparr>)) = [5, 3] \<and>
   pending (snd (request example_config example_new_URL (\<lambda>i. TimerFires) ''GET''
     ''/idr/v2/alerts'' None None \<lparr>pending = [3], next_id = 5\<rparr>)) = [3] \<and>
   pending (snd (request example_config example_new_URL
     (\<lambda>i. Rejects (ErrorObject ''TypeError'' ''fetch failed'')) ''GET'' ''/idr/v2/alerts'' None None
     \<lparr>pending = [3], next_id = 5\<rparr>)) = [3] \<and>
   pending (snd (request example_config example_new_URL
     (\<lambda>i. Resolves \<lparr>status = 500, statusText = ''Internal Server Error'', headers = [],
                      json = Inr JNull\<rparr>) ''GET'' ''/idr/v2/alerts'' None None
     \<lparr>pending = [3], next_id = 5\<rparr>)) = [3] \<and>
   pending (snd (request example_config example_new_URL
     (\<lambda>i. Resolves \<lparr>status = 200, statusText = ''OK'', headers = [],
                      json = Inr (JObj [])\<rparr>) ''GET'' ''/idr/v2/alerts'' None None
     \<lparr>pending = [3], next_id = 5\<rparr>)) = [3] \<and>
   snd (request example_config example_new_URL (\<lambda>i. TimerFires) ''GET''
     ''idr/v2/alerts'' None None \<lparr>pending = [3], next_id = 5\<rparr>) =
     \<lparr>pending = [3], next_id = 5\<rparr>"
proof -
  let ?rt = "\<lparr>pending = [3], next_id = 5\<rparr>"
  have n: "sent example_config example_new_URL ''GET'' ''idr/v2/alerts'' None None ?rt = None"
    by (simp add: sent_def build_url_def baseUrl_example_config example_new_URL_def)
  note a = C6_timer_cleared_on_every_path [of ?rt example_config example_new_URL "''GET''"
      "''/idr/v2/alerts''" None None
      "make_init example_config ''GET''
         \<lparr>before_query = ''https://us.api.example.com/idr/v2/alerts'', query = None,
          fragment = None, searchParams = []\<rparr> None 5"]
  show ?thesis
    using a [of "\<lambda>i. TimerFires"]
      a [of "\<lambda>i. Rejects (ErrorObject ''TypeError'' ''fetch failed'')"]
      a [of "\<lambda>i. Resolves \<lparr>status = 500, statusText = ''Internal Server Error'', headers = [],
                      json = Inr JNull\<rparr>"]
      a [of "\<lambda>i. Resolves \<lparr>status = 200, statusText = ''OK'', headers = [],
                      json = Inr (JObj [])\<rparr>"]
      C6_timer_cleared_on_every_path [of ?rt example_config example_new_URL "''GET''"
        "''idr/v2/alerts''" None None _ "\<lambda>i. TimerFires"]
    by (simp add: example_sent n createAbortSignal_def setTimeout_def)
qed


subsection \<open>Query parameters\<close>







subsection \<open>The request body\<close>

text \<open>
  C10. When the URL parses, \<open>request\<close> hands one request to \<open>fetch\<close>, and that
  request has a body exactly when the \<open>body\<close> argument is truthy. For \<open>undefined\<close>,
  \<open>null\<close>, \<open>false\<close>, \<open>0\<close> and the empty string no body is sent; for every other
  value the body is the JSON text of the value.
\<close>

theorem C10_body_sent_iff_truthy:
  assumes "new_URL (baseUrl cfg @ endpoint) = Inr u"
  shows "\<exists>i. (\<forall>fetch. fst (request cfg new_URL fetch method endpoint params body rt) =
                  outcome cfg (fetch i)) \<and>
     (req_body i = None \<longleftrightarrow>
        body \<in> {None, Some JNull, Some (JBool False), Some (JNum 0), Some (JStr [])}) \<and>
     (truthy body \<longleftrightarrow>
        body \<notin> {None, Some JNull, Some (JBool False), Some (JNum 0), Some (JStr [])}) \<and>
     (\<forall>b. body = Some b \<and> truthy body \<longrightarrow> req_body i = Some (JSON_stringify b 0))"
proof -
  let ?url = "case params of None \<Rightarrow> u | Some es \<Rightarrow> set_params es u"
  let ?i = "make_init cfg method ?url body (fst (createAbortSignal rt))"
  have s: "sent cfg new_URL method endpoint params body rt = Some ?i"
    using assms by (simp add: sent_def build_url_def)
  have f: "\<forall>fetch. fst (request cfg new_URL fetch method endpoint params body rt) =
      outcome cfg (fetch ?i)"
    using request_outcome [OF s] by blast
  have b: "(req_body ?i = None \<longleftrightarrow>
        body \<in> {None, Some JNull, Some (JBool False), Some (JNum 0), Some (JStr [])}) \<and>
     (truthy body \<longleftrightarrow>
        body \<notin> {None, Some JNull, Some (JBool False), Some (JNum 0), Some (JStr [])}) \<and>
     (\<forall>b. body = Some b \<and> truthy body \<longrightarrow> req_body ?i = Some (JSON_stringify b 0))"
  proof (cases body)
    case None
    then show ?thesis by (simp add: make_init_def)
  next
    case (Some v)
    then show ?thesis by (cases v) (auto simp add: make_init_def)
  qed
  show ?thesis
    apply (rule exI [of _ ?i])
    apply (rule conjI)
     apply (rule f)
    apply (rule b)
    done
qed

theorem C10_body_sent_iff_truthy_witness:
  "(\<exists>i. (\<forall>fetch. fst (request example_config example_new_URL fetch ''POST'' ''/idr/v2/alerts''
             None (Some (JNum 0)) idle_runtime) = outcome example_config (fetch i)) \<and>
        req_body i = None) \<and>
   (\<exists>i. (\<forall>fetch. fst (request example_config example_new_URL fetch ''POST'' ''/idr/v2/alerts''
             None (Some (JObj [(''title'', JStr ''t'')])) idle_runtime) =
           outcome example_config (fetch i)) \<and>
        req_body i = Some (JSON_stringify (JObj [(''title'', JStr ''t'')]) 0))"
proof -
  let ?u = "\<lparr>before_query = ''https://us.api.example.com/idr/v2/alerts'', query = None,
             fragment = None, searchParams = []\<rparr>"
  have p: "example_new_URL (baseUrl example_config @ ''/idr/v2/alerts'') = Inr ?u"
    by (simp add: example_new_URL_def baseUrl_example_config)
  have a: "\<exists>i. (\<forall>fetch. fst (request example_config example_new_URL fetch ''POST''
             ''/idr/v2/alerts'' None (Some (JNum 0)) idle_runtime) =
           outcome example_config (fetch i)) \<and> req_body i = None"
    using C10_body_sent_iff_truthy [of example_new_URL example_config "''/idr/v2/alerts''" ?u
        "''POST''" None "Some (JNum 0)" idle_runtime, OF p]
    by (elim exE conjE, intro exI conjI) simp_all
  have b: "\<exists>i. (\<forall>fetch. fst (request example_config example_new_URL fetch ''POST''
             ''/idr/v2/alerts'' None (Some (JObj [(''title'', JStr ''t'')])) idle_runtime) =
           outcome example_config (fetch i)) \<and>
        req_body i = Some (JSON_stringify (JObj [(''title'', JStr ''t'')]) 0)"
    using C10_body_sent_iff_truthy [of example_new_URL example_config "''/idr/v2/alerts''" ?u
        "''POST''" None "Some (JObj [(''title'', JStr ''t'')])" idle_runtime, OF p]
    by (elim exE conjE, intro exI conjI) simp_all
  from a b show ?thesis by (rule conjI)
qed

end
